theory Spec2Isabelle
  imports Main "HOL-Library.Sublist"
begin

section \<open>JavaScript strings\<close>

text \<open>
  A JavaScript string is modelled as a \<^typ>\<open>string\<close>, one \<^typ>\<open>char\<close> per code unit.
  For ASCII text, which is what the sandbox's build tools print, positions and lengths are
  those of JavaScript. The only non-ASCII literal of the modelled code, the check mark
  U+2705 of \<open>parseError\<close>, is held as its three UTF-8 bytes.
\<close>

definition newline :: char where
  "newline = CHR 0x0A"

definition checkMark :: string where
  "checkMark = [CHR 0xE2, CHR 0x9C, CHR 0x85]"

text \<open>\<open>Array.prototype.join('\n')\<close>\<close>

fun join :: "string list \<Rightarrow> string" where
  "join [] = []"
| "join [x] = x"
| "join (x # y # ys) = x @ newline # join (y # ys)"

text \<open>\<open>xs.slice(-n)\<close>, on arrays and on strings: the last \<open>n\<close> elements, all of them when
  there are fewer.\<close>

definition slice_last :: "nat \<Rightarrow> 'a list \<Rightarrow> 'a list" where
  "slice_last n xs = drop (length xs - n) xs"

text \<open>\<open>s.includes(x)\<close> (the name \<open>includes\<close> is a keyword of Isabelle)\<close>

fun str_includes :: "string \<Rightarrow> string \<Rightarrow> bool" where
  "str_includes [] x = (x = [])"
| "str_includes (c # cs) x = (prefix x (c # cs) \<or> str_includes cs x)"

definition startsWith :: "string \<Rightarrow> string \<Rightarrow> bool" where
  "startsWith s p = prefix p s"

definition endsWith :: "string \<Rightarrow> string \<Rightarrow> bool" where
  "endsWith s p = suffix p s"

text \<open>\<open>s.split(sep)\<close> for a non-empty separator: \<open>skip\<close> counts the characters of a
  separator just found that are still to be passed over, \<open>acc\<close> is the current piece,
  reversed.\<close>

fun split_aux :: "string \<Rightarrow> nat \<Rightarrow> string \<Rightarrow> string \<Rightarrow> string list" where
  "split_aux sep skip acc [] = [rev acc]"
| "split_aux sep skip acc (c # cs) =
     (if 0 < skip then split_aux sep (skip - 1) acc cs
      else if prefix sep (c # cs) then rev acc # split_aux sep (length sep - 1) [] cs
      else split_aux sep 0 (c # acc) cs)"

definition split :: "string \<Rightarrow> string \<Rightarrow> string list" where
  "split sep s = split_aux sep 0 [] s"

text \<open>\<open>s.replace(pat, rep)\<close> with a string pattern: the first occurrence only.\<close>

fun replaceStr :: "string \<Rightarrow> string \<Rightarrow> string \<Rightarrow> string" where
  "replaceStr pat rep [] = (if pat = [] then rep else [])"
| "replaceStr pat rep (c # cs) =
     (if prefix pat (c # cs) then rep @ drop (length pat) (c # cs)
      else c # replaceStr pat rep cs)"

text \<open>\<open>s.replace(/^\//, '')\<close>: one leading slash is dropped.\<close>

fun stripLeadingSlash :: "string \<Rightarrow> string" where
  "stripLeadingSlash [] = []"
| "stripLeadingSlash (c # cs) = (if c = CHR ''/'' then cs else c # cs)"

section \<open>Regular expressions\<close>

text \<open>Character classes: \<open>\d\<close>, \<open>\w\<close>, \<open>\s\<close> and \<open>.\<close> on ASCII, and the
  case folding of the \<open>i\<close> flag.\<close>

definition is_digit :: "char \<Rightarrow> bool" where
  "is_digit c = (48 \<le> (of_char c :: nat) \<and> (of_char c :: nat) \<le> 57)"

definition is_word :: "char \<Rightarrow> bool" where
  "is_word c = (let n = (of_char c :: nat) in
     (48 \<le> n \<and> n \<le> 57) \<or> (65 \<le> n \<and> n \<le> 90) \<or> (97 \<le> n \<and> n \<le> 122) \<or> n = 95)"

definition is_space :: "char \<Rightarrow> bool" where
  "is_space c = (let n = (of_char c :: nat) in (9 \<le> n \<and> n \<le> 13) \<or> n = 32)"

definition is_dot :: "char \<Rightarrow> bool" where
  "is_dot c = (c \<noteq> CHR 0x0A \<and> c \<noteq> CHR 0x0D)"

definition is_upper :: "char \<Rightarrow> bool" where
  "is_upper c = (65 \<le> (of_char c :: nat) \<and> (of_char c :: nat) \<le> 90)"

text \<open>The lower-case letter of an upper-case one is 32 further on: the same bits with
  bit 5 set.\<close>

definition lower :: "char \<Rightarrow> char" where
  "lower c = (if is_upper c
              then (case c of Char b0 b1 b2 b3 b4 b5 b6 b7 \<Rightarrow> Char b0 b1 b2 b3 b4 True b6 b7)
              else c)"

text \<open>A literal under the \<open>i\<close> flag: the text starts with it, case aside.\<close>

fun prefix_ci :: "string \<Rightarrow> string \<Rightarrow> bool" where
  "prefix_ci [] s = True"
| "prefix_ci (a # as) [] = False"
| "prefix_ci (a # as) (c # cs) = (if lower a = lower c then prefix_ci as cs else False)"

text \<open>
  The fragment of JavaScript's regular expressions that the modelled code uses: literals
  (\<open>LitI\<close> under the \<open>i\<close> flag), one character of a class, the greedy \<open>*\<close> and
  \<open>+\<close> of a class, the greedy \<open>?\<close>, sequence, alternative, a capture group and \<open>$\<close>.
\<close>

datatype re =
    Eps
  | Lit string
  | LitI string
  | Cls "char \<Rightarrow> bool"
  | Star "char \<Rightarrow> bool"
  | Plus "char \<Rightarrow> bool"
  | Opt re
  | Seq re re
  | Alt re re
  | Cap nat re
  | Eos

type_synonym caps = "(nat \<times> string) list"

text \<open>What is left of the input after a greedy repetition of a class, in the order in
  which backtracking tries it: the longest run first.\<close>

fun star_rests :: "(char \<Rightarrow> bool) \<Rightarrow> string \<Rightarrow> string list" where
  "star_rests P [] = [[]]"
| "star_rests P (c # cs) = (if P c then star_rests P cs @ [c # cs] else [c # cs])"

fun plus_rests :: "(char \<Rightarrow> bool) \<Rightarrow> string \<Rightarrow> string list" where
  "plus_rests P [] = []"
| "plus_rests P (c # cs) = (if P c then star_rests P cs else [])"

text \<open>\<open>ms r s\<close>: every way in which \<open>r\<close> matches a prefix of \<open>s\<close>, as the captures and
  the rest of the input, in backtracking order. The head is the match JavaScript reports
  at this position.\<close>

fun ms :: "re \<Rightarrow> string \<Rightarrow> (caps \<times> string) list" where
  "ms Eps s = [([], s)]"
| "ms (Lit l) s = (if prefix l s then [([], drop (length l) s)] else [])"
| "ms (LitI l) s = (if prefix_ci l s then [([], drop (length l) s)] else [])"
| "ms (Cls P) s = (case s of [] \<Rightarrow> [] | c # cs \<Rightarrow> if P c then [([], cs)] else [])"
| "ms (Star P) s = map (Pair []) (star_rests P s)"
| "ms (Plus P) s = map (Pair []) (plus_rests P s)"
| "ms (Opt r) s = ms r s @ [([], s)]"
| "ms (Seq r1 r2) s =
     concat (map (\<lambda>(c1, s1). map (\<lambda>(c2, s2). (c1 @ c2, s2)) (ms r2 s1)) (ms r1 s))"
| "ms (Alt r1 r2) s = ms r1 s @ ms r2 s"
| "ms (Cap n r) s = map (\<lambda>(c, s'). ((n, take (length s - length s') s) # c, s')) (ms r s)"
| "ms Eos s = (if s = [] then [([], [])] else [])"

primrec seqs :: "re list \<Rightarrow> re" where
  "seqs [] = Eps"
| "seqs (r # rs) = Seq r (seqs rs)"

text \<open>The leftmost match: the text before it (kept reversed in \<open>acc\<close> while scanning), its
  captures and the text after it.\<close>

fun search_from :: "re \<Rightarrow> string \<Rightarrow> string \<Rightarrow> (string \<times> caps \<times> string) option" where
  "search_from r acc s =
     (case ms r s of
        (c, rest) # _ \<Rightarrow> Some (rev acc, c, rest)
      | [] \<Rightarrow> (case s of [] \<Rightarrow> None | x # xs \<Rightarrow> search_from r (x # acc) xs))"

text \<open>\<open>s.match(r)\<close> without the \<open>g\<close> flag: the captures of the leftmost match.\<close>

definition match :: "re \<Rightarrow> string \<Rightarrow> caps option" where
  "match r s = map_option (\<lambda>(before, c, after). c) (search_from r [] s)"

text \<open>A group inside a template literal; a group that took no part prints as
  \<open>undefined\<close>.\<close>

definition grp :: "nat \<Rightarrow> caps \<Rightarrow> string" where
  "grp n c = (case map_of c n of Some g \<Rightarrow> g | None \<Rightarrow> ''undefined'')"

text \<open>\<open>s.replace(r, '')\<close> without the \<open>g\<close> flag.\<close>

definition remove_first :: "re \<Rightarrow> string \<Rightarrow> string" where
  "remove_first r s =
     (case search_from r [] s of None \<Rightarrow> s | Some (before, c, after) \<Rightarrow> before @ after)"

text \<open>\<open>s.replace(r, '')\<close> with the \<open>g\<close> flag: scan from the left, drop each match and go
  on behind it; after an empty match the scan moves on by one character.\<close>

function replace_all :: "re \<Rightarrow> string \<Rightarrow> string" where
  "replace_all r [] = []"
| "replace_all r (c # cs) =
     (case ms r (c # cs) of
        [] \<Rightarrow> c # replace_all r cs
      | (cp, rest) # _ \<Rightarrow>
          if length rest < length (c # cs) then replace_all r rest
          else c # replace_all r cs)"
  by pat_completeness auto
termination
  by (relation "measure (\<lambda>(r, s). length s)") auto

text \<open>\<open>parseInt(s, 10)\<close> on a capture: the leading decimal digits, \<open>NaN\<close> (here
  \<open>None\<close>) when there is none.\<close>

definition digit_val :: "char \<Rightarrow> nat" where
  "digit_val c = of_char c - 48"

definition parseInt :: "string \<Rightarrow> nat option" where
  "parseInt s =
     (let ds = takeWhile is_digit s
      in if ds = [] then None else Some (foldl (\<lambda>n c. 10 * n + digit_val c) 0 ds))"

section \<open>The Output Normalizer and the Error Classifier\<close>

text \<open>\<open>/\x1B\[[0-9;]*[mGKHF]/g\<close> and \<open>/\[\d+m/g\<close>\<close>

definition ansiRe :: re where
  "ansiRe = seqs [Lit [CHR 0x1B, CHR ''[''], Star (\<lambda>c. is_digit c \<or> c = CHR '';''),
     Cls (\<lambda>c. c \<in> set ''mGKHF'')]"

definition bracketRe :: re where
  "bracketRe = seqs [Lit ''['', Plus is_digit, Lit ''m'']"

definition normalize :: "string \<Rightarrow> string" where
  "normalize rawText = replace_all bracketRe (replace_all ansiRe rawText)"

text \<open>The candidate \<open>{ file, error }\<close> (\<open>file\<close> is a keyword of Isabelle, so the fields carry a
  prefix).\<close>

record error_candidate =
  c_file :: string
  c_error :: string

text \<open>\<open>(?:\/home\/[^\/]+\/)?\<close>\<close>

definition homeRe :: re where
  "homeRe = Opt (seqs [Lit ''/home/'', Plus (\<lambda>c. c \<noteq> CHR ''/''), Lit ''/''])"

text \<open>\<open>/File:\s*(?:\/home\/[^\/]+\/)?(src\/[^\s:]+\.tsx?)(?::(\d+))?/\<close>\<close>

definition fileLineRe :: re where
  "fileLineRe = seqs [Lit ''File:'', Star is_space, homeRe,
     Cap 1 (seqs [Lit ''src/'', Plus (\<lambda>c. \<not> is_space c \<and> c \<noteq> CHR '':''),
                  Lit ''.ts'', Opt (Lit ''x'')]),
     Opt (seqs [Lit '':'', Cap 2 (Plus is_digit)])]"

text \<open>\<open>/(?:\/home\/[^\/]+\/)?(src\/[^\s:)]+\.tsx?)/\<close>\<close>

definition inlineFileRe :: re where
  "inlineFileRe = seqs [homeRe,
     Cap 1 (seqs [Lit ''src/'',
                  Plus (\<lambda>c. \<not> is_space c \<and> c \<noteq> CHR '':'' \<and> c \<noteq> CHR '')''),
                  Lit ''.ts'', Opt (Lit ''x'')])]"

definition is_quote :: "char \<Rightarrow> bool" where
  "is_quote c = (c = CHR 0x22 \<or> c = CHR 0x27)"

text \<open>\<open>/Failed to resolve import\s*["']([^"']+)["']\s*from\s*["']([^"']+)["']/\<close>\<close>

definition importRe :: re where
  "importRe = seqs [Lit ''Failed to resolve import'', Star is_space, Cls is_quote,
     Cap 1 (Plus (\<lambda>c. \<not> is_quote c)), Cls is_quote, Star is_space, Lit ''from'',
     Star is_space, Cls is_quote, Cap 2 (Plus (\<lambda>c. \<not> is_quote c)), Cls is_quote]"

definition is_pathchar :: "char \<Rightarrow> bool" where
  "is_pathchar c = (is_word c \<or> c = CHR ''-'' \<or> c = CHR ''/'')"

text \<open>\<open>/(src\/[\w\-\/]+\.tsx?)\((\d+),(\d+)\):\s*error\s*(TS\d+):\s*(.+)/\<close>\<close>

definition tsRe :: re where
  "tsRe = seqs [Cap 1 (seqs [Lit ''src/'', Plus is_pathchar, Lit ''.ts'', Opt (Lit ''x'')]),
     Lit ''('', Cap 2 (Plus is_digit), Lit '','', Cap 3 (Plus is_digit), Lit ''):'',
     Star is_space, Lit ''error'', Star is_space,
     Cap 4 (seqs [Lit ''TS'', Plus is_digit]), Lit '':'', Star is_space, Cap 5 (Plus is_dot)]"

text \<open>\<open>/(?:\/home\/[^\/]+\/)?(src\/[\w\-\/]+\.tsx?)/\<close>\<close>

definition fileRe :: re where
  "fileRe = seqs [homeRe,
     Cap 1 (seqs [Lit ''src/'', Plus is_pathchar, Lit ''.ts'', Opt (Lit ''x'')])]"

text \<open>\<open>/Cannot find module\s*["']([^"']+)["']/\<close>\<close>

definition moduleRe :: re where
  "moduleRe = seqs [Lit ''Cannot find module'', Star is_space, Cls is_quote,
     Cap 1 (Plus (\<lambda>c. \<not> is_quote c)), Cls is_quote]"

text \<open>The rules of \<open>parseError\<close>, in the order of the source; each works on the
  normalized text.\<close>

definition viteRule :: "string \<Rightarrow> error_candidate option" where
  "viteRule text =
     (if str_includes text ''[plugin:vite:'' then
        (case match fileLineRe text of
           Some m \<Rightarrow> Some \<lparr>c_file = grp 1 m,
             c_error = ''Vite Error in '' @ grp 1 m @ [newline, newline] @ ''Full error:''
                     @ [newline] @ slice_last 1000 text\<rparr>
         | None \<Rightarrow>
            (case match inlineFileRe text of
               Some m \<Rightarrow> Some \<lparr>c_file = grp 1 m,
                 c_error = ''Vite Error in '' @ grp 1 m @ [newline, newline] @ ''Full error:''
                         @ [newline] @ slice_last 1000 text\<rparr>
             | None \<Rightarrow> None))
      else None)"

definition importRule :: "string \<Rightarrow> error_candidate option" where
  "importRule text =
     (case match importRe text of
        Some m \<Rightarrow>
          (let sourceFile = stripLeadingSlash (grp 2 m);
               filePath = (if startsWith sourceFile ''src/'' then sourceFile
                           else ''src/'' @ last (split ''src/'' sourceFile))
           in Some \<lparr>c_file = filePath,
                c_error = ''Import Error: Cannot find '' @ [CHR 0x22] @ grp 1 m @ [CHR 0x22]
                        @ '' in '' @ filePath @ [newline, newline] @ ''Full error:''
                        @ [newline] @ slice_last 800 text\<rparr>)
      | None \<Rightarrow> None)"

definition tsRule :: "string \<Rightarrow> error_candidate option" where
  "tsRule text =
     (case match tsRe text of
        Some m \<Rightarrow> Some \<lparr>c_file = grp 1 m,
          c_error = ''TypeScript '' @ grp 4 m @ '' at line '' @ grp 2 m @ '': '' @ grp 5 m
                  @ [newline, newline] @ ''Full error:'' @ [newline] @ slice_last 600 text\<rparr>
      | None \<Rightarrow> None)"

definition syntaxRule :: "string \<Rightarrow> error_candidate option" where
  "syntaxRule text =
     (if str_includes text ''SyntaxError'' \<or> str_includes text ''Unexpected token'' then
        (case match fileRe text of
           Some m \<Rightarrow> Some \<lparr>c_file = grp 1 m,
             c_error = ''Syntax Error in '' @ grp 1 m @ [newline, newline]
                     @ slice_last 600 text\<rparr>
         | None \<Rightarrow> None)
      else None)"

definition moduleRule :: "string \<Rightarrow> error_candidate option" where
  "moduleRule text =
     (case match moduleRe text of
        Some mm \<Rightarrow>
          (case match fileRe text of
             Some m \<Rightarrow> Some \<lparr>c_file = grp 1 m,
               c_error = ''Module not found: '' @ grp 1 mm @ [newline, newline]
                       @ slice_last 500 text\<rparr>
           | None \<Rightarrow> None)
      | None \<Rightarrow> None)"

text \<open>The first rule that yields a candidate wins.\<close>

fun firstOf :: "(string \<Rightarrow> 'a option) list \<Rightarrow> string \<Rightarrow> 'a option" where
  "firstOf [] text = None"
| "firstOf (f # fs) text = (case f text of Some e \<Rightarrow> Some e | None \<Rightarrow> firstOf fs text)"

text \<open>The Classifier on the normalized text.\<close>

definition classify :: "string \<Rightarrow> error_candidate option" where
  "classify text =
     (if str_includes text ''hmr update'' \<and> \<not> str_includes text ''[plugin:vite'' then None
      else if str_includes text checkMark \<and> \<not> str_includes text ''[plugin:vite'' then None
      else firstOf [viteRule, importRule, tsRule, syntaxRule, moduleRule] text)"

text \<open>The text \<open>parseError\<close> works on: the last 80 lines, joined and normalized.\<close>

definition normalizedText :: "string list \<Rightarrow> string" where
  "normalizedText output = normalize (join (slice_last 80 output))"

definition parseError :: "string list \<Rightarrow> error_candidate option" where
  "parseError output = classify (normalizedText output)"

section \<open>The Stack Trace Resolver\<close>

text \<open>\<open>lineNumber\<close> is \<open>number | null\<close>; \<open>parseInt\<close> may put \<open>NaN\<close> there.\<close>

datatype line_number = Null | NaN | Line nat

definition toLine :: "string \<Rightarrow> line_number" where
  "toLine s = (case parseInt s of None \<Rightarrow> NaN | Some n \<Rightarrow> Line n)"

record trace_result =
  filePath :: "string option"
  lineNumber :: line_number

definition backslash :: char where
  "backslash = CHR 0x5C"

definition tsPathRe :: re where
  "tsPathRe = seqs [Plus (\<lambda>c. \<not> is_space c \<and> c \<noteq> CHR '':'' \<and> c \<noteq> CHR '')''),
     Lit ''.ts'', Opt (Lit ''x'')]"

text \<open>Pattern 1, \<open>/\.io\/src\/([^\s:)]+\.tsx?):(\\d+)/\<close>. In a regular expression literal
  \<open>\\\<close> is an escaped backslash: the second group is a backslash and then one or more
  letters \<open>d\<close>.\<close>

definition srcPathRe :: re where
  "srcPathRe = seqs [Lit ''.io/src/'', Cap 1 tsPathRe, Lit '':'',
     Cap 2 (seqs [Lit [backslash], Plus (\<lambda>c. c = CHR ''d'')])]"

text \<open>Pattern 2, \<open>/Check the render method of [`']?(\w+)[`']?/i\<close>\<close>

definition is_tick :: "char \<Rightarrow> bool" where
  "is_tick c = (c = CHR 0x60 \<or> c = CHR 0x27)"

definition renderMethodRe :: re where
  "renderMethodRe = seqs [LitI ''Check the render method of '', Opt (Cls is_tick),
     Cap 1 (Plus is_word), Opt (Cls is_tick)]"

text \<open>\<open>new RegExp(`at ${componentName}\\s*\\([^)]*\\/src\\/([^\\s:)]+\\.tsx?):(\\d+)`)\<close>:
  in the template string \<open>\\\<close> is one backslash of the pattern. The component name is
  a run of word characters, so it stands for itself.\<close>

definition componentFilePattern :: "string \<Rightarrow> re" where
  "componentFilePattern componentName =
     seqs [Lit (''at '' @ componentName), Star is_space, Lit ''('',
       Star (\<lambda>c. c \<noteq> CHR '')''), Lit ''/src/'', Cap 1 tsPathRe, Lit '':'',
       Cap 2 (Plus is_digit)]"

definition framePathRe :: re where
  "framePathRe = seqs [Lit ''src/'', Plus (\<lambda>c. c \<noteq> CHR '':'' \<and> c \<noteq> CHR '')'')]"

text \<open>Pattern 3, \<open>/at\s+\w+\s+\(https?:\/\/[^)]+\/(src\/[^:)]+):(\d+):\d+\)/\<close>\<close>

definition reactRe :: re where
  "reactRe = seqs [Lit ''at'', Plus is_space, Plus is_word, Plus is_space,
     Lit ''(http'', Opt (Lit ''s''), Lit ''://'', Plus (\<lambda>c. c \<noteq> CHR '')''), Lit ''/'',
     Cap 1 framePathRe, Lit '':'', Cap 2 (Plus is_digit), Lit '':'', Plus is_digit,
     Lit '')'']"

text \<open>Pattern 4, \<open>/at\s+https?:\/\/[^/]+\/(src\/[^:)]+):(\d+):\d+/\<close>\<close>

definition urlRe :: re where
  "urlRe = seqs [Lit ''at'', Plus is_space, Lit ''http'', Opt (Lit ''s''), Lit ''://'',
     Plus (\<lambda>c. c \<noteq> CHR ''/''), Lit ''/'', Cap 1 framePathRe, Lit '':'',
     Cap 2 (Plus is_digit), Lit '':'', Plus is_digit]"

text \<open>Pattern 5, \<open>/(src\/[\w\/.-]+\.(?:tsx?|jsx?))/\<close>\<close>

definition simpleRe :: re where
  "simpleRe = Cap 1 (seqs [Lit ''src/'',
     Plus (\<lambda>c. is_word c \<or> c = CHR ''/'' \<or> c = CHR ''.'' \<or> c = CHR ''-''), Lit ''.'',
     Alt (seqs [Lit ''ts'', Opt (Lit ''x'')]) (seqs [Lit ''js'', Opt (Lit ''x'')])])"

text \<open>\<open>parseStackTrace(stack, message)\<close>; an absent argument is the empty string
  (\<open>message || ''\<close>).\<close>

definition parseStackTrace :: "string \<Rightarrow> string \<Rightarrow> trace_result" where
  "parseStackTrace stack message =
     (let combinedText = message @ [newline] @ stack in
      if list_all is_space combinedText then \<lparr>filePath = None, lineNumber = Null\<rparr>
      else case match srcPathRe combinedText of
        Some m \<Rightarrow> \<lparr>filePath = Some (''src/'' @ grp 1 m), lineNumber = toLine (grp 2 m)\<rparr>
      | None \<Rightarrow>
       (case match renderMethodRe combinedText of
          Some rm \<Rightarrow>
            (let componentName = grp 1 rm in
             case match (componentFilePattern componentName) combinedText of
               Some m \<Rightarrow>
                 \<lparr>filePath = Some (''src/'' @ grp 1 m), lineNumber = toLine (grp 2 m)\<rparr>
             | None \<Rightarrow>
                 \<lparr>filePath = Some (''src/components/features/'' @ componentName @ ''.tsx''),
                  lineNumber = Null\<rparr>)
        | None \<Rightarrow>
         (case match reactRe combinedText of
            Some m \<Rightarrow> \<lparr>filePath = Some (grp 1 m), lineNumber = toLine (grp 2 m)\<rparr>
          | None \<Rightarrow>
           (case match urlRe combinedText of
              Some m \<Rightarrow> \<lparr>filePath = Some (grp 1 m), lineNumber = toLine (grp 2 m)\<rparr>
            | None \<Rightarrow>
             (case match simpleRe combinedText of
                Some m \<Rightarrow> \<lparr>filePath = Some (grp 1 m), lineNumber = Null\<rparr>
              | None \<Rightarrow> \<lparr>filePath = None, lineNumber = Null\<rparr>)))))"

section \<open>The Fix Dispatcher\<close>

record source_file =
  path :: string
  content :: string

datatype message_type = Thinking | Success | Error

text \<open>The body of a POST to \<open>/api/fix-error\<close>: \<open>error\<close>, \<open>filePath\<close>,
  \<open>fileContent\<close>.\<close>

datatype fix_request = FixRequest string string string

text \<open>What the repair service answers to one request: \<open>fetch\<close> rejects, or there is a
  response with its \<open>ok\<close> flag, whose \<open>json()\<close> rejects or yields an object with or
  without a \<open>fixedCode\<close> string.\<close>

datatype body = JsonThrows string | Json "string option"

datatype response = FetchThrows string | Response bool body

text \<open>The callbacks handed to \<open>setTimeout\<close>. Each closure is listed with the values it
  captured; \<open>terminalOutput\<close> is the rolling log of the render that created the
  callback.\<close>

datatype task =
    ExpireKey string
  | RecheckOther "string list" string
  | RecheckSame "string list"
  | WatcherFix "string list" string string
  | QueuedRuntimeFix "string list" string string string
  | RuntimeFix "string list" string string

text \<open>The refs and the React state the fix loop reads and writes, the pending timeouts
  (delay in milliseconds and callback) and the requests sent to the repair service so
  far. A state setter is taken to act at once.\<close>

record fix_state =
  fixingRef :: bool
  isFixing :: bool
  fixAttempts :: nat
  fixedFilesRef :: "string set"
  lastFixTimeRef :: "string \<rightharpoonup> int"
  files :: "source_file list"
  filesRef :: "source_file list"
  fixCount :: nat
  messages :: "(message_type \<times> string) list"
  timeouts :: "(nat \<times> task) list"
  fetched :: "fix_request list"

definition MAX_FIX_ATTEMPTS :: nat where
  "MAX_FIX_ATTEMPTS = 50"

definition FIX_COOLDOWN_MS :: int where
  "FIX_COOLDOWN_MS = 10000"

text \<open>A chat message is kept as its type and its text; the emoji that opens the text in
  the source is left out.\<close>

definition addMessage :: "message_type \<Rightarrow> string \<Rightarrow> fix_state \<Rightarrow> fix_state" where
  "addMessage t c s = s\<lparr>messages := messages s @ [(t, c)]\<rparr>"

definition setTimeout :: "task \<Rightarrow> nat \<Rightarrow> fix_state \<Rightarrow> fix_state" where
  "setTimeout cb delay s = s\<lparr>timeouts := timeouts s @ [(delay, cb)]\<rparr>"

definition fetch :: "fix_request \<Rightarrow> fix_state \<Rightarrow> fix_state" where
  "fetch rq s = s\<lparr>fetched := fetched s @ [rq]\<rparr>"

text \<open>\<open>`${errorFile}:${errorText.slice(0, 100)}`\<close>\<close>

definition errorKey :: "string \<Rightarrow> string \<Rightarrow> string" where
  "errorKey errorFile errorText = errorFile @ '':'' @ take 100 errorText"

text \<open>\<open>/Cannot find module ["']([^"']+)["']|Failed to resolve import ["']([^"']+)["']/i\<close>\<close>

definition missingImportRe :: re where
  "missingImportRe =
     Alt (seqs [LitI ''Cannot find module '', Cls is_quote,
                Cap 1 (Plus (\<lambda>c. \<not> is_quote c)), Cls is_quote])
         (seqs [LitI ''Failed to resolve import '', Cls is_quote,
                Cap 2 (Plus (\<lambda>c. \<not> is_quote c)), Cls is_quote])"

text \<open>\<open>missingImportMatch[1] || missingImportMatch[2]\<close>\<close>

definition missingPathOf :: "caps \<Rightarrow> string" where
  "missingPathOf m = (case map_of m 1 of Some g \<Rightarrow> g | None \<Rightarrow> grp 2 m)"

text \<open>\<open>/\.(tsx?|jsx?)$/\<close>\<close>

definition extRe :: re where
  "extRe = seqs [Lit ''.'', Alt (seqs [Lit ''ts'', Opt (Lit ''x'')])
                            (seqs [Lit ''js'', Opt (Lit ''x'')]), Eos]"

text \<open>\<open>missingPath.split('/').pop()?.replace(/\.(tsx?|jsx?)$/, '') || 'Component'\<close>\<close>

definition componentNameOf :: "string \<Rightarrow> string" where
  "componentNameOf missingPath =
     (let n = remove_first extRe (last (split ''/'' missingPath))
      in if n = [] then ''Component'' else n)"

text \<open>The path of the file to create (\<open>filePath\<close> in the source, \<open>newPath\<close> below, the
  former being a field of the resolver's result here): the \<open>@/\<close> alias, the default
  extension, the \<open>src/\<close> prefix.\<close>

definition newFilePath :: "string \<Rightarrow> string" where
  "newFilePath missingPath =
     (let p1 = (if startsWith missingPath ''@/'' then replaceStr ''@/'' ''src/'' missingPath
                else missingPath);
          p2 = (if \<not> endsWith p1 ''.tsx'' \<and> \<not> endsWith p1 ''.ts'' then p1 @ ''.tsx'' else p1)
      in if \<not> startsWith p2 ''src/'' then ''src/'' @ p2 else p2)"

text \<open>\<open>!targetFile?.content\<close>: no file, or a file with empty content.\<close>

definition noContent :: "source_file option \<Rightarrow> bool" where
  "noContent t = (case t of None \<Rightarrow> True | Some f \<Rightarrow> content f = [])"

text \<open>The file to repair: by exact path, by suffix or by the path without its \<open>src/\<close>;
  failing that, by base name.\<close>

definition findTarget :: "source_file list \<Rightarrow> string \<Rightarrow> source_file option" where
  "findTarget fs errorFile =
     (let targetFile = find (\<lambda>f. path f = errorFile \<or> endsWith (path f) errorFile \<or>
                                 str_includes (path f) (replaceStr ''src/'' [] errorFile)) fs;
          fileName = last (split ''/'' errorFile)
      in if noContent targetFile \<and> fileName \<noteq> []
         then find (\<lambda>f. endsWith (path f) fileName) fs
         else targetFile)"

text \<open>An invocation of \<open>fixCodeError\<close> that waits for the repair service: the arguments
  and the captured log it goes on with, and the flow it is in.\<close>

datatype flow = MissingModule string string | Repair source_file

record pending =
  p_errorFile :: string
  p_errorKey :: string
  p_output :: "string list"
  p_flow :: flow

datatype outcome = NotCalled | Returned bool | Awaiting pending

text \<open>\<open>fixCodeError\<close> up to its first \<open>await\<close>: the two guards, the flag and the attempt
  counter, then the request of the flow the error text selects. Nothing else runs in
  between, the event loop being single-threaded.\<close>

definition fix_start ::
  "string list \<Rightarrow> fix_state \<Rightarrow> string \<Rightarrow> string \<Rightarrow> outcome \<times> fix_state" where
  "fix_start terminalOutput s errorFile errorText =
     (if fixingRef s then (Returned False, s)
      else if errorKey errorFile errorText \<in> fixedFilesRef s then (Returned False, s)
      else
        let s1 = s\<lparr>fixingRef := True, isFixing := True, fixAttempts := fixAttempts s + 1\<rparr>;
            p = \<lparr>p_errorFile = errorFile, p_errorKey = errorKey errorFile errorText,
                 p_output = terminalOutput, p_flow = Repair \<lparr>path = [], content = []\<rparr>\<rparr>
        in case match missingImportRe errorText of
             Some m \<Rightarrow>
               (let missingPath = missingPathOf m;
                    componentName = componentNameOf missingPath;
                    newPath = newFilePath missingPath;
                    s2 = addMessage Thinking
                           (''Creating missing component: '' @ componentName @ ''...'') s1;
                    s3 = fetch (FixRequest
                           (''Create a new React component for: '' @ componentName
                            @ ''. The file path is '' @ newPath
                            @ ''. Make it a functional TypeScript component with proper props interface and modern styling using Tailwind CSS.'')
                           newPath ''// NEW FILE - GENERATE COMPONENT'') s2
                in (Awaiting (p\<lparr>p_flow := MissingModule componentName newPath\<rparr>), s3))
           | None \<Rightarrow>
               (case findTarget (filesRef s1) errorFile of
                  None \<Rightarrow> (Returned False, s1\<lparr>fixingRef := False, isFixing := False\<rparr>)
                | Some targetFile \<Rightarrow>
                    if content targetFile = []
                    then (Returned False, s1\<lparr>fixingRef := False, isFixing := False\<rparr>)
                    else
                      let s2 = addMessage Thinking
                                 (''Auto-fixing error in '' @ path targetFile @ ''...'') s1;
                          s3 = fetch (FixRequest errorText (path targetFile)
                                        (content targetFile)) s2
                      in (Awaiting (p\<lparr>p_flow := Repair targetFile\<rparr>), s3)))"

text \<open>The \<open>catch\<close> block.\<close>

definition caught :: "string \<Rightarrow> fix_state \<Rightarrow> bool \<times> fix_state" where
  "caught err s = (False, addMessage Error (''Auto-fix failed: '' @ err) s)"

text \<open>The missing-module flow from the answer of the service on: the new file is appended
  (\<open>updateFile\<close> and the auto-save catch their own errors and touch none of this
  state).\<close>

definition missingModuleFlow ::
  "pending \<Rightarrow> string \<Rightarrow> string \<Rightarrow> response \<Rightarrow> fix_state \<Rightarrow> bool \<times> fix_state" where
  "missingModuleFlow p componentName newPath r s =
     (case r of
        FetchThrows err \<Rightarrow> caught err s
      | Response ok b \<Rightarrow>
          if ok then
            (case b of
               JsonThrows err \<Rightarrow> caught err s
             | Json None \<Rightarrow> (False, s)
             | Json (Some fixedCode) \<Rightarrow>
                 if fixedCode \<noteq> [] then
                   (True, addMessage Success (''Created missing component: '' @ componentName)
                     (s\<lparr>files := files s @ [\<lparr>path = ''/'' @ newPath, content = fixedCode\<rparr>],
                        fixCount := fixCount s + 1,
                        fixedFilesRef := insert (p_errorKey p) (fixedFilesRef s)\<rparr>))
                 else (False, s))
          else (False, s))"

text \<open>The repair flow from the answer of the service on.\<close>

definition repairFlow ::
  "pending \<Rightarrow> source_file \<Rightarrow> response \<Rightarrow> fix_state \<Rightarrow> bool \<times> fix_state" where
  "repairFlow p targetFile r s =
     (case r of
        FetchThrows err \<Rightarrow> caught err s
      | Response ok b \<Rightarrow>
          if \<not> ok then caught ''Error: Backend failed'' s
          else
            (case b of
               JsonThrows err \<Rightarrow> caught err s
             | Json None \<Rightarrow> (False, s)
             | Json (Some fixedCode) \<Rightarrow>
                 if fixedCode \<noteq> [] \<and> fixedCode \<noteq> content targetFile then
                   (True, addMessage Success (''Fixed error in '' @ path targetFile)
                     (setTimeout (ExpireKey (p_errorKey p)) 15000
                       (s\<lparr>files := map (\<lambda>f. if path f = path targetFile
                                                then f\<lparr>content := fixedCode\<rparr> else f) (files s),
                          fixCount := fixCount s + 1,
                          fixedFilesRef := insert (p_errorKey p) (fixedFilesRef s)\<rparr>)))
                 else (False, s)))"

text \<open>\<open>fixCodeError\<close> from the answer of the service to its return: the flow, the
  \<open>finally\<close> block, and after a success the two re-checks.\<close>

definition fix_finish :: "fix_state \<Rightarrow> pending \<Rightarrow> response \<Rightarrow> bool \<times> fix_state" where
  "fix_finish s p r =
     (let (fixSuccess, s1) =
            (case p_flow p of
               MissingModule componentName newPath \<Rightarrow>
                 missingModuleFlow p componentName newPath r s
             | Repair targetFile \<Rightarrow> repairFlow p targetFile r s);
          s2 = s1\<lparr>fixingRef := False, isFixing := False\<rparr>
      in if fixSuccess
         then (True, setTimeout (RecheckSame (p_output p)) 8000
                       (setTimeout (RecheckOther (p_output p) (p_errorFile p)) 3000 s2))
         else (False, s2))"

text \<open>A whole call of \<open>fixCodeError\<close>, with the answer the service gives to its
  request.\<close>

definition fixCodeError ::
  "response \<Rightarrow> string list \<Rightarrow> fix_state \<Rightarrow> string \<Rightarrow> string \<Rightarrow> bool \<times> fix_state" where
  "fixCodeError r terminalOutput s errorFile errorText =
     (case fix_start terminalOutput s errorFile errorText of
        (Awaiting p, s') \<Rightarrow> fix_finish s' p r
      | (Returned b, s') \<Rightarrow> (b, s')
      | (NotCalled, s') \<Rightarrow> (False, s'))"

section \<open>The Fix Orchestration Loop\<close>

text \<open>The effect that watches the terminal output. Its cleanup clears the timeout of the
  previous run.\<close>

definition isWatcherFix :: "nat \<times> task \<Rightarrow> bool" where
  "isWatcherFix t = (case snd t of WatcherFix out f e \<Rightarrow> True | _ \<Rightarrow> False)"

definition watcherCleanup :: "fix_state \<Rightarrow> fix_state" where
  "watcherCleanup s = s\<lparr>timeouts := filter (\<lambda>t. \<not> isWatcherFix t) (timeouts s)\<rparr>"

definition watcher :: "bool \<Rightarrow> int \<Rightarrow> string list \<Rightarrow> fix_state \<Rightarrow> fix_state" where
  "watcher isRunning now terminalOutput s0 =
     (let s = watcherCleanup s0 in
      if \<not> isRunning \<or> fixingRef s \<or> isFixing s then s
      else if fixAttempts s \<ge> MAX_FIX_ATTEMPTS then s
      else case parseError terminalOutput of
        None \<Rightarrow> s
      | Some errorInfo \<Rightarrow>
          if c_file errorInfo = [] then s
          else
            let lastFixTime = (case lastFixTimeRef s (c_file errorInfo) of
                                 None \<Rightarrow> 0 | Some t \<Rightarrow> t)
            in if now - lastFixTime < FIX_COOLDOWN_MS then s
               else if errorKey (c_file errorInfo) (c_error errorInfo) \<in> fixedFilesRef s then s
               else setTimeout
                      (WatcherFix terminalOutput (c_file errorInfo) (c_error errorInfo)) 1500
                      (s\<lparr>lastFixTimeRef := (lastFixTimeRef s)(c_file errorInfo \<mapsto> now)\<rparr>))"

text \<open>The \<open>message\<close> event of the preview frame.\<close>

record runtime_event =
  ev_type :: string
  ev_message :: string
  ev_stack :: string
  ev_errorType :: string

definition handleRuntimeError ::
  "bool \<Rightarrow> string list \<Rightarrow> runtime_event \<Rightarrow> fix_state \<Rightarrow> fix_state" where
  "handleRuntimeError isRunning terminalOutput ev s =
     (if ev_type ev \<noteq> ''RUNTIME_ERROR'' then s
      else if \<not> isRunning then s
      else if fixAttempts s \<ge> MAX_FIX_ATTEMPTS then s
      else case filePath (parseStackTrace (ev_stack ev) (ev_message ev)) of
        None \<Rightarrow> s
      | Some fp \<Rightarrow>
          if fp = [] then s
          else
            let errorContext = ''Runtime Error ('' @ ev_errorType ev @ '')'' @ [newline]
                  @ ev_message ev @ [newline, newline] @ ''Stack trace:'' @ [newline]
                  @ ev_stack ev;
                k = errorKey fp errorContext
            in if k \<in> fixedFilesRef s then s
               else if fixingRef s \<or> isFixing s
               then setTimeout (QueuedRuntimeFix terminalOutput k fp errorContext) 3000 s
               else setTimeout (RuntimeFix terminalOutput fp errorContext) 1500 s)"

text \<open>What a timeout does when it fires.\<close>

definition run_task :: "task \<Rightarrow> fix_state \<Rightarrow> outcome \<times> fix_state" where
  "run_task t s =
     (case t of
        ExpireKey k \<Rightarrow> (NotCalled, s\<lparr>fixedFilesRef := fixedFilesRef s - {k}\<rparr>)
      | RecheckOther out errorFile \<Rightarrow>
          (case parseError out of
             None \<Rightarrow> (NotCalled, s)
           | Some e \<Rightarrow>
               if c_file e \<noteq> [] \<and> c_file e \<noteq> errorFile
               then fix_start out s (c_file e) (c_error e)
               else (NotCalled, s))
      | RecheckSame out \<Rightarrow>
          (case parseError out of
             None \<Rightarrow> (NotCalled, s)
           | Some e \<Rightarrow>
               if c_file e \<noteq> [] \<and> errorKey (c_file e) (c_error e) \<notin> fixedFilesRef s
               then fix_start out s (c_file e) (c_error e)
               else (NotCalled, s))
      | WatcherFix out f e \<Rightarrow> fix_start out s f e
      | QueuedRuntimeFix out k f e \<Rightarrow>
          if k \<notin> fixedFilesRef s then fix_start out s f e else (NotCalled, s)
      | RuntimeFix out f e \<Rightarrow> fix_start out s f e)"

section \<open>Reading a pattern\<close>


text \<open>\<open>must l r\<close>: the literal \<open>l\<close> is a part of \<open>r\<close> that no match can do without.\<close>

fun must :: "string \<Rightarrow> re \<Rightarrow> bool" where
  "must l (Lit x) = (l = x)"
| "must l (Seq a b) = (must l a \<or> must l b)"
| "must l (Alt a b) = (must l a \<and> must l b)"
| "must l (Cap n r) = must l r"
| "must l r = False"

text \<open>\<open>r.test(s)\<close>: the pattern occurs somewhere in the text.\<close>

definition test :: "re \<Rightarrow> string \<Rightarrow> bool" where
  "test r s = (match r s \<noteq> None)"

text \<open>
  The interleavings of the loop. A configuration is the state together with the
  invocations of \<open>fixCodeError\<close> that wait for the repair service. Every call of
  \<open>fixCodeError\<close> is made by a timeout; a timeout of any shape may fire at any time, the
  service may answer any waiting invocation with anything, the two triggers may run, and
  a render copies \<open>files\<close> into \<open>filesRef\<close>.
\<close>

inductive reach :: "fix_state \<Rightarrow> pending list \<Rightarrow> bool" where
  start: "\<not> fixingRef s \<Longrightarrow> reach s []"
| fire: "reach s ps \<Longrightarrow> run_task t s = (oc, s') \<Longrightarrow>
         reach s' (case oc of Awaiting p \<Rightarrow> ps @ [p] | _ \<Rightarrow> ps)"
| answer: "reach s ps \<Longrightarrow> p \<in> set ps \<Longrightarrow> reach (snd (fix_finish s p r)) (remove1 p ps)"
| watch: "reach s ps \<Longrightarrow> reach (watcher isRunning now out s) ps"
| runtime: "reach s ps \<Longrightarrow> reach (handleRuntimeError isRunning out ev s) ps"
| render: "reach s ps \<Longrightarrow> reach (s\<lparr>filesRef := files s\<rparr>) ps"

section \<open>Sample sessions\<close>

text \<open>A project of two files, with nothing fixed yet and no fix under way.\<close>

definition sampleFiles :: "source_file list" where
  "sampleFiles = [\<lparr>path = ''/src/App.tsx'', content = ''export default 1''\<rparr>,
                  \<lparr>path = ''/src/pages/Bar.tsx'', content = ''export const Bar = 2''\<rparr>]"

definition idle :: fix_state where
  "idle = \<lparr>fixingRef = False, isFixing = False, fixAttempts = 0, fixedFilesRef = {},
           lastFixTimeRef = Map.empty, files = sampleFiles, filesRef = sampleFiles,
           fixCount = 0, messages = [], timeouts = [], fetched = []\<rparr>"

text \<open>The same session while a fix is under way.\<close>

definition busy :: fix_state where
  "busy = idle\<lparr>fixingRef := True, isFixing := True, fixAttempts := 1\<rparr>"


definition appOutput :: "string list" where
  "appOutput = [''[plugin:vite:react-babel] Unexpected token'',
                ''File: /home/project/src/App.tsx:3:1'']"

definition appRepair :: pending where
  "appRepair = \<lparr>p_errorFile = ''src/App.tsx'', p_errorKey = ''src/App.tsx:boom'',
                 p_output = appOutput,
                 p_flow = Repair \<lparr>path = ''/src/App.tsx'', content = ''export default 1''\<rparr>\<rparr>"

definition widgetCreate :: pending where
  "widgetCreate = \<lparr>p_errorFile = ''src/App.tsx'', p_errorKey = ''src/App.tsx:missing'',
                    p_output = appOutput,
                    p_flow = MissingModule ''Widget'' ''src/Widget.tsx''\<rparr>"

text \<open>A runtime report of the preview frame about \<open>src/pages/Bar.tsx\<close>.\<close>

definition barEvent :: runtime_event where
  "barEvent = \<lparr>ev_type = ''RUNTIME_ERROR'', ev_message = ''x is not defined'',
                ev_stack = ''at Bar (https://x.io/src/pages/Bar.tsx:10:5)'',
                ev_errorType = ''ReferenceError''\<rparr>"


text \<open>Steps of a session: the \<open>i\<close>-th pending timeout fires; the service answers the
  invocation that waits, if one does; a render brings \<open>filesRef\<close> up to date.\<close>

definition fire :: "nat \<Rightarrow> fix_state \<Rightarrow> outcome \<times> fix_state" where
  "fire i s =
     (if i < length (timeouts s)
      then run_task (snd (timeouts s ! i))
             (s\<lparr>timeouts := take i (timeouts s) @ drop (Suc i) (timeouts s)\<rparr>)
      else (NotCalled, s))"

definition answerWith :: "response \<Rightarrow> outcome \<times> fix_state \<Rightarrow> fix_state" where
  "answerWith r x = (case fst x of Awaiting p \<Rightarrow> snd (fix_finish (snd x) p r)
                     | _ \<Rightarrow> snd x)"

definition rerender :: "fix_state \<Rightarrow> fix_state" where
  "rerender s = s\<lparr>filesRef := files s\<rparr>"

definition requestPath :: "fix_request \<Rightarrow> string" where
  "requestPath rq = (case rq of FixRequest e p c \<Rightarrow> p)"



text \<open>A session that has made 49 attempts. A runtime error in \<open>src/pages/Bar.tsx\<close> is
  reported, dispatched and repaired: the 50th attempt. Three seconds later the re-check
  for other files (the second pending timeout) fires on a log that shows the build error
  in \<open>src/App.tsx\<close>.\<close>

definition budgetReached :: fix_state where
  "budgetReached =
     rerender (answerWith (Response True (Json (Some ''fixed'')))
                 (fire 0 (handleRuntimeError True appOutput barEvent
                            (idle\<lparr>fixAttempts := 49\<rparr>))))"

definition budgetExceeded :: fix_state where
  "budgetExceeded = snd (fire 1 budgetReached)"

text \<open>What the sample sessions are observed by: the attempts made, the files the
  requests were for, and the time of the last fix recorded for a file.\<close>

definition observe :: "string \<Rightarrow> fix_state \<Rightarrow> nat \<times> string list \<times> int option" where
  "observe f s = (fixAttempts s, map requestPath (fetched s), lastFixTimeRef s f)"

section \<open>Properties of the Fix Dispatcher\<close>

declare search_from.simps [simp del]

lemma fix_start_guard_flag: "fixingRef s \<Longrightarrow> fix_start out s f t = (Returned False, s)"
  by (simp add: fix_start_def)

lemma fix_start_guard_key:
  "errorKey f t \<in> fixedFilesRef s \<Longrightarrow> fix_start out s f t = (Returned False, s)"
  by (simp add: fix_start_def)

lemma fix_start_cases:
  "fix_start out s f t = (Returned False, s) \<or>
   (\<not> fixingRef s \<and> errorKey f t \<notin> fixedFilesRef s \<and>
     fix_start out s f t = (Returned False, s\<lparr>fixingRef := False, isFixing := False, fixAttempts := fixAttempts s + 1\<rparr>)) \<or>
   (\<not> fixingRef s \<and> errorKey f t \<notin> fixedFilesRef s \<and>
     (\<exists>p m rq. fix_start out s f t =
        (Awaiting p, s\<lparr>fixingRef := True, isFixing := True, fixAttempts := fixAttempts s + 1,
            messages := messages s @ [(Thinking, m)], fetched := fetched s @ [rq]\<rparr>)))"
  by (auto simp: fix_start_def Let_def addMessage_def fetch_def split: option.splits)

lemma fix_start_awaiting:
  assumes "fix_start out s f t = (Awaiting p, s')"
  shows "\<not> fixingRef s \<and> fixingRef s' \<and> length (fetched s') = Suc (length (fetched s))
         \<and> fixedFilesRef s' = fixedFilesRef s \<and> files s' = files s"
  using assms fix_start_cases [of out s f t] by auto

lemma fix_start_returned:
  assumes "fix_start out s f t = (oc, s')" and "\<forall>p. oc \<noteq> Awaiting p"
  shows "fixingRef s' = fixingRef s \<and> fetched s' = fetched s
         \<and> fixedFilesRef s' = fixedFilesRef s \<and> files s' = files s"
  using assms fix_start_cases [of out s f t] by auto

lemma run_task_cases:
  "(\<exists>k. t = ExpireKey k \<and> run_task t s = (NotCalled, s\<lparr>fixedFilesRef := fixedFilesRef s - {k}\<rparr>))
   \<or> run_task t s = (NotCalled, s)
   \<or> (\<exists>out f e. run_task t s = fix_start out s f e)"
  by (cases t) (auto simp: run_task_def split: option.splits)

lemma run_task_awaiting:
  assumes "run_task t s = (Awaiting p, s')"
  shows "\<not> fixingRef s \<and> fixingRef s'"
  using assms run_task_cases [of t s] fix_start_awaiting by (metis Pair_inject outcome.distinct(3))

lemma run_task_returned:
  assumes "run_task t s = (oc, s')" and "\<forall>p. oc \<noteq> Awaiting p"
  shows "fixingRef s' = fixingRef s \<and> fetched s' = fetched s"
  using assms run_task_cases [of t s] fix_start_returned [where s = s and s' = s' and oc = oc]
  by auto

lemma fix_finish_flag: "\<not> fixingRef (snd (fix_finish s p r))"
  by (auto simp: fix_finish_def Let_def setTimeout_def split: prod.splits)

lemma watcher_flag: "fixingRef (watcher isRunning now out s) = fixingRef s"
  by (auto simp: watcher_def watcherCleanup_def Let_def setTimeout_def split: option.splits)

lemma handleRuntimeError_flag: "fixingRef (handleRuntimeError isRunning out ev s) = fixingRef s"
  by (auto simp: handleRuntimeError_def Let_def setTimeout_def split: option.splits)

lemma reach_invariant: "reach s ps \<Longrightarrow> length ps \<le> 1 \<and> (fixingRef s \<longleftrightarrow> ps \<noteq> [])"
proof (induction rule: reach.induct)
  case (start s)
  then show ?case by simp
next
  case (fire s ps t oc s')
  show ?case
  proof (cases "\<exists>p. oc = Awaiting p")
    case True
    then obtain p where oc: "oc = Awaiting p" by blast
    with fire.hyps(2) have "\<not> fixingRef s \<and> fixingRef s'"
      using run_task_awaiting by blast
    with fire.IH oc show ?thesis by simp
  next
    case False
    then have "fixingRef s' = fixingRef s"
      using run_task_returned [OF fire.hyps(2)] by blast
    with fire.IH False show ?thesis by (cases oc) auto
  qed
next
  case (answer s ps p r)
  then have "ps = [p]" by (cases ps) auto
  then show ?case by (simp add: fix_finish_flag)
next
  case (watch s ps isRunning now out)
  then show ?case by (simp add: watcher_flag)
next
  case (runtime s ps isRunning out ev)
  then show ?case by (simp add: handleRuntimeError_flag)
next
  case (render s ps)
  then show ?case by simp
qed

lemma missingModuleFlow_cases:
  "(missingModuleFlow p cn np r s = (False, s)) \<or>
   (\<exists>m. missingModuleFlow p cn np r s = (False, addMessage Error m s)) \<or>
   (\<exists>fc. fc \<noteq> [] \<and> r = Response True (Json (Some fc)) \<and>
      missingModuleFlow p cn np r s =
        (True, addMessage Success (''Created missing component: '' @ cn)
           (s\<lparr>files := files s @ [\<lparr>path = ''/'' @ np, content = fc\<rparr>],
              fixCount := fixCount s + 1,
              fixedFilesRef := insert (p_errorKey p) (fixedFilesRef s)\<rparr>)))"
  by (auto simp: missingModuleFlow_def caught_def split: response.splits body.splits option.splits)

lemma repairFlow_cases:
  "(repairFlow p tf r s = (False, s)) \<or>
   (\<exists>m. repairFlow p tf r s = (False, addMessage Error m s)) \<or>
   (\<exists>fc. fc \<noteq> [] \<and> fc \<noteq> content tf \<and> r = Response True (Json (Some fc)) \<and>
      repairFlow p tf r s =
        (True, addMessage Success (''Fixed error in '' @ path tf)
           (setTimeout (ExpireKey (p_errorKey p)) 15000
             (s\<lparr>files := map (\<lambda>f. if path f = path tf then f\<lparr>content := fc\<rparr> else f) (files s),
                fixCount := fixCount s + 1,
                fixedFilesRef := insert (p_errorKey p) (fixedFilesRef s)\<rparr>))))"
  by (auto simp: repairFlow_def caught_def split: response.splits body.splits option.splits)

lemma fix_finish_failure:
  assumes "fix_finish s p r = (False, s')"
  shows "\<not> fixingRef s' \<and> \<not> isFixing s' \<and> fixedFilesRef s' = fixedFilesRef s \<and> files s' = files s
         \<and> timeouts s' = timeouts s \<and> fetched s' = fetched s \<and> fixAttempts s' = fixAttempts s
         \<and> (messages s' = messages s \<or> (\<exists>m. messages s' = messages s @ [(Error, m)]))"
proof (cases "p_flow p")
  case (MissingModule cn np)
  with assms missingModuleFlow_cases [of p cn np r s] show ?thesis
    by (auto simp: fix_finish_def Let_def addMessage_def split: prod.splits if_splits)
next
  case (Repair tf)
  with assms repairFlow_cases [of p tf r s] show ?thesis
    by (auto simp: fix_finish_def Let_def addMessage_def split: prod.splits if_splits)
qed

lemma fix_finish_fixed_mono: "k \<in> fixedFilesRef s \<Longrightarrow> k \<in> fixedFilesRef (snd (fix_finish s p r))"
proof (cases "p_flow p")
  case (MissingModule cn np)
  assume "k \<in> fixedFilesRef s"
  with MissingModule missingModuleFlow_cases [of p cn np r s] show ?thesis
    by (auto simp: fix_finish_def Let_def addMessage_def setTimeout_def split: prod.splits if_splits)
next
  case (Repair tf)
  assume "k \<in> fixedFilesRef s"
  with Repair repairFlow_cases [of p tf r s] show ?thesis
    by (auto simp: fix_finish_def Let_def addMessage_def setTimeout_def split: prod.splits if_splits)
qed

lemma fix_finish_repair_success:
  assumes "fix_finish s p r = (True, s')" and "p_flow p = Repair tf"
  shows "\<exists>fc. fc \<noteq> [] \<and> fc \<noteq> content tf \<and> r = Response True (Json (Some fc)) \<and>
     files s' = map (\<lambda>f. if path f = path tf then f\<lparr>content := fc\<rparr> else f) (files s) \<and>
     fixedFilesRef s' = insert (p_errorKey p) (fixedFilesRef s) \<and>
     timeouts s' = timeouts s @ [(15000, ExpireKey (p_errorKey p)),
               (3000, RecheckOther (p_output p) (p_errorFile p)), (8000, RecheckSame (p_output p))] \<and>
     \<not> fixingRef s'"
  using assms repairFlow_cases [of p tf r s]
  by (auto simp: fix_finish_def Let_def addMessage_def setTimeout_def split: prod.splits if_splits)

lemma fix_finish_missing_success:
  assumes "fix_finish s p r = (True, s')" and "p_flow p = MissingModule cn np"
  shows "\<exists>fc. fc \<noteq> [] \<and> r = Response True (Json (Some fc)) \<and>
     files s' = files s @ [\<lparr>path = ''/'' @ np, content = fc\<rparr>] \<and>
     fixedFilesRef s' = insert (p_errorKey p) (fixedFilesRef s) \<and>
     timeouts s' = timeouts s @ [
               (3000, RecheckOther (p_output p) (p_errorFile p)), (8000, RecheckSame (p_output p))] \<and>
     \<not> fixingRef s'"
  using assms missingModuleFlow_cases [of p cn np r s]
  by (auto simp: fix_finish_def Let_def addMessage_def setTimeout_def split: prod.splits if_splits)

lemma watcher_fixed: "fixedFilesRef (watcher isRunning now out s) = fixedFilesRef s"
  by (auto simp: watcher_def watcherCleanup_def Let_def setTimeout_def split: option.splits)

lemma handleRuntimeError_fixed: "fixedFilesRef (handleRuntimeError isRunning out ev s) = fixedFilesRef s"
  by (auto simp: handleRuntimeError_def Let_def setTimeout_def split: option.splits)

lemma fix_start_fixed: "fixedFilesRef (snd (fix_start out s f t)) = fixedFilesRef s"
  using fix_start_cases [of out s f t] by auto

lemma run_task_fixed_mono:
  "k \<in> fixedFilesRef s \<Longrightarrow> t \<noteq> ExpireKey k \<Longrightarrow> k \<in> fixedFilesRef (snd (run_task t s))"
  using run_task_cases [of t s] fix_start_fixed by auto

lemma fixCodeError_flag: "\<not> fixingRef s \<Longrightarrow> \<not> fixingRef (snd (fixCodeError r out s f t))"
  using fix_start_cases [of out s f t]
  by (auto simp: fixCodeError_def fix_finish_flag)

text \<open>
  Claim C1. While the in-flight flag \<open>fixingRef\<close> is set, a call of \<open>fixCodeError\<close>
  returns \<open>false\<close> at once and leaves the whole state as it is: no request is sent and
  no guard state changes. A call sends its request only from a state with the flag clear,
  and sets the flag; every way in which a call completes leaves the flag clear. So in
  every configuration the loop can reach, at most one invocation waits for the repair
  service, and one waits exactly when the flag is set.
\<close>

theorem in_flight_flag_serializes:
  "(fixingRef s \<longrightarrow>
      fix_start out s f t = (Returned False, s) \<and> fixCodeError r out s f t = (False, s))
   \<and> (\<forall>p s'. fix_start out s f t = (Awaiting p, s') \<longrightarrow>
         \<not> fixingRef s \<and> fixingRef s' \<and> length (fetched s') = Suc (length (fetched s)))
   \<and> (\<forall>oc s'. fix_start out s f t = (oc, s') \<and> (\<forall>p. oc \<noteq> Awaiting p) \<longrightarrow>
         fixingRef s' = fixingRef s \<and> fetched s' = fetched s)
   \<and> (\<not> fixingRef s \<longrightarrow> \<not> fixingRef (snd (fixCodeError r out s f t)))
   \<and> \<not> fixingRef (snd (fix_finish s q r))
   \<and> (reach s ps \<longrightarrow> length ps \<le> 1 \<and> (fixingRef s \<longleftrightarrow> ps \<noteq> []))"
proof -
  have "fixingRef s \<longrightarrow> fixCodeError r out s f t = (False, s)"
    by (simp add: fixCodeError_def fix_start_guard_flag)
  moreover have "\<forall>p s'. fix_start out s f t = (Awaiting p, s') \<longrightarrow>
      \<not> fixingRef s \<and> fixingRef s' \<and> length (fetched s') = Suc (length (fetched s))"
    using fix_start_awaiting by blast
  moreover have "\<forall>oc s'. fix_start out s f t = (oc, s') \<and> (\<forall>p. oc \<noteq> Awaiting p) \<longrightarrow>
      fixingRef s' = fixingRef s \<and> fetched s' = fetched s"
    using fix_start_returned by blast
  ultimately show ?thesis
    using fix_start_guard_flag fixCodeError_flag fix_finish_flag reach_invariant by blast
qed


theorem in_flight_flag_serializes_witness:
  "fixingRef busy
   \<and> fixCodeError (Response True (Json (Some ''fixed''))) appOutput busy ''src/App.tsx'' ''boom''
       = (False, busy)
   \<and> fst (fix_start appOutput idle ''src/App.tsx'' ''boom'') = Awaiting appRepair
   \<and> fixingRef (snd (fix_start appOutput idle ''src/App.tsx'' ''boom''))
   \<and> length (fetched (snd (fix_start appOutput idle ''src/App.tsx'' ''boom''))) = 1
   \<and> \<not> fixingRef (snd (fixCodeError (FetchThrows ''TypeError: Failed to fetch'') appOutput idle
                        ''src/App.tsx'' ''boom''))
   \<and> reach idle []"
proof -
  have b: "fixingRef busy"
    by (simp add: busy_def)
  have i: "\<not> fixingRef idle" and fl: "fetched idle = []"
    by (simp_all add: idle_def)
  have aw: "fst (fix_start appOutput idle ''src/App.tsx'' ''boom'') = Awaiting appRepair"
    by code_simp
  then obtain s1 where st: "fix_start appOutput idle ''src/App.tsx'' ''boom'' = (Awaiting appRepair, s1)"
    by (cases "fix_start appOutput idle ''src/App.tsx'' ''boom''") auto
  have r: "reach idle []"
    using i by (rule reach.start)
  have busy_case: "fixCodeError (Response True (Json (Some ''fixed''))) appOutput busy
      ''src/App.tsx'' ''boom'' = (False, busy)"
    using b in_flight_flag_serializes [of busy appOutput "''src/App.tsx''" "''boom''"
        "Response True (Json (Some ''fixed''))" appRepair "[]"]
    by blast
  have idle_case: "fixingRef s1 \<and> length (fetched s1) = Suc (length (fetched idle))
      \<and> \<not> fixingRef (snd (fixCodeError (FetchThrows ''TypeError: Failed to fetch'') appOutput idle
                        ''src/App.tsx'' ''boom''))"
    using i st in_flight_flag_serializes [of idle appOutput "''src/App.tsx''" "''boom''"
        "FetchThrows ''TypeError: Failed to fetch''" appRepair "[]"]
    by blast
  show ?thesis
    using b busy_case idle_case r by (simp add: st fl)
qed

text \<open>
  Claim C2. A dispatch whose ErrorKey (the file, a colon and the first 100 characters of
  the error text) is in the fixed set is suppressed: \<open>fixCodeError\<close> returns \<open>false\<close>
  with the state untouched, so no request is sent. A key in the fixed set stays there
  through every step of the loop except the firing of its own expiry timeout, which a
  successful repair schedules 15 seconds ahead; the two triggers apply the same test
  before they schedule a dispatch.
\<close>

theorem fixed_key_suppresses_dispatch:
  "(errorKey f t \<in> fixedFilesRef s \<longrightarrow>
      fix_start out s f t = (Returned False, s) \<and> fixCodeError r out s f t = (False, s))
   \<and> (k \<in> fixedFilesRef s \<longrightarrow>
         k \<in> fixedFilesRef (snd (fix_start out s f t))
       \<and> k \<in> fixedFilesRef (snd (fix_finish s q r))
       \<and> k \<in> fixedFilesRef (watcher isRunning now out s)
       \<and> k \<in> fixedFilesRef (handleRuntimeError isRunning out ev s)
       \<and> (tk \<noteq> ExpireKey k \<longrightarrow> k \<in> fixedFilesRef (snd (run_task tk s))))
   \<and> k \<notin> fixedFilesRef (snd (run_task (ExpireKey k) s))
   \<and> (\<forall>tf s'. fix_finish s q r = (True, s') \<and> p_flow q = Repair tf \<longrightarrow>
         p_errorKey q \<in> fixedFilesRef s' \<and> (15000, ExpireKey (p_errorKey q)) \<in> set (timeouts s'))
   \<and> (\<forall>p s'. fix_start out s f t = (Awaiting p, s') \<longrightarrow> p_errorKey p = errorKey f t)"
proof -
  have a: "errorKey f t \<in> fixedFilesRef s \<longrightarrow>
      fix_start out s f t = (Returned False, s) \<and> fixCodeError r out s f t = (False, s)"
    by (simp add: fixCodeError_def fix_start_guard_key)
  have b: "k \<in> fixedFilesRef s \<longrightarrow>
         k \<in> fixedFilesRef (snd (fix_start out s f t))
       \<and> k \<in> fixedFilesRef (snd (fix_finish s q r))
       \<and> k \<in> fixedFilesRef (watcher isRunning now out s)
       \<and> k \<in> fixedFilesRef (handleRuntimeError isRunning out ev s)
       \<and> (tk \<noteq> ExpireKey k \<longrightarrow> k \<in> fixedFilesRef (snd (run_task tk s)))"
    by (simp add: fix_start_fixed fix_finish_fixed_mono watcher_fixed
        handleRuntimeError_fixed run_task_fixed_mono)
  have c: "k \<notin> fixedFilesRef (snd (run_task (ExpireKey k) s))"
    by (simp add: run_task_def)
  have d: "\<forall>tf s'. fix_finish s q r = (True, s') \<and> p_flow q = Repair tf \<longrightarrow>
         p_errorKey q \<in> fixedFilesRef s' \<and> (15000, ExpireKey (p_errorKey q)) \<in> set (timeouts s')"
    using fix_finish_repair_success [of s q r] by fastforce
  have e: "\<forall>p s'. fix_start out s f t = (Awaiting p, s') \<longrightarrow> p_errorKey p = errorKey f t"
    by (auto simp: fix_start_def Let_def split: if_splits option.splits)
  from a b c d e show ?thesis by blast
qed

theorem fixed_key_suppresses_dispatch_witness:
  "errorKey ''src/App.tsx'' ''boom'' \<in> fixedFilesRef (idle\<lparr>fixedFilesRef := {''src/App.tsx:boom''}\<rparr>)
   \<and> fixCodeError (Response True (Json (Some ''fixed''))) appOutput
        (idle\<lparr>fixedFilesRef := {''src/App.tsx:boom''}\<rparr>) ''src/App.tsx'' ''boom''
       = (False, idle\<lparr>fixedFilesRef := {''src/App.tsx:boom''}\<rparr>)
   \<and> ''src/App.tsx:boom'' \<in> fixedFilesRef
        (snd (run_task (RecheckSame appOutput) (idle\<lparr>fixedFilesRef := {''src/App.tsx:boom''}\<rparr>)))
   \<and> fst (fix_finish busy appRepair (Response True (Json (Some ''fixed'')))) = True
   \<and> (15000, ExpireKey ''src/App.tsx:boom'')
        \<in> set (timeouts (snd (fix_finish busy appRepair (Response True (Json (Some ''fixed''))))))
   \<and> p_errorKey appRepair = errorKey ''src/App.tsx'' ''boom''"
proof -
  let ?s = "idle\<lparr>fixedFilesRef := {''src/App.tsx:boom''}\<rparr>"
  let ?r = "Response True (Json (Some ''fixed''))"
  have k: "errorKey ''src/App.tsx'' ''boom'' = ''src/App.tsx:boom''"
    by (simp add: errorKey_def)
  have m: "''src/App.tsx:boom'' \<in> fixedFilesRef ?s"
    by simp
  have fin: "fst (fix_finish busy appRepair ?r) = True"
    by (simp add: fix_finish_def appRepair_def repairFlow_def Let_def)
  then obtain s' where s': "fix_finish busy appRepair ?r = (True, s')"
    by (cases "fix_finish busy appRepair ?r") auto
  have fl: "p_flow appRepair = Repair \<lparr>path = ''/src/App.tsx'', content = ''export default 1''\<rparr>"
    and pk: "p_errorKey appRepair = ''src/App.tsx:boom''"
    by (simp_all add: appRepair_def)
  have one: "fixCodeError ?r appOutput ?s ''src/App.tsx'' ''boom'' = (False, ?s)
      \<and> ''src/App.tsx:boom'' \<in> fixedFilesRef (snd (run_task (RecheckSame appOutput) ?s))"
    using k m fixed_key_suppresses_dispatch [of "''src/App.tsx''" "''boom''" ?s appOutput ?r
        "''src/App.tsx:boom''" appRepair True 0 barEvent "RecheckSame appOutput"]
    by simp
  have two: "(15000, ExpireKey ''src/App.tsx:boom'') \<in> set (timeouts s')"
    using s' fl pk fixed_key_suppresses_dispatch [of "''src/App.tsx''" "''boom''" busy appOutput ?r
        "''src/App.tsx:boom''" appRepair True 0 barEvent "RecheckSame appOutput"]
    by simp
  show ?thesis
    using k m fin one two pk by (simp add: s')
qed

text \<open>
  Claim C9, as the code has it. When \<open>fetch\<close> rejects, when \<open>json()\<close> rejects, or when
  the repair flow gets a response that is not \<open>ok\<close>, the error is caught inside
  \<open>fixCodeError\<close> and appended to the chat as an error message. A response without
  \<open>fixedCode\<close> adds no message. Whenever \<open>fixCodeError\<close> returns \<open>false\<close> after its
  request, so in each of these cases, the in-flight flag is clear, the fixed set and the
  files are as before and no timeout was scheduled: the same error can be dispatched
  again.
\<close>

theorem failed_fix_leaves_key_unfixed:
  "((\<exists>e. r = FetchThrows e \<or> r = Response True (JsonThrows e))
       \<or> (\<exists>tf b. p_flow q = Repair tf \<and> r = Response False b) \<longrightarrow>
      (\<exists>m. messages (snd (fix_finish s q r)) = messages s @ [(Error, m)])
      \<and> fst (fix_finish s q r) = False)
   \<and> (r = Response True (Json None) \<longrightarrow>
        fst (fix_finish s q r) = False \<and> messages (snd (fix_finish s q r)) = messages s)
   \<and> (fst (fix_finish s q r) = False \<longrightarrow>
        \<not> fixingRef (snd (fix_finish s q r))
      \<and> \<not> isFixing (snd (fix_finish s q r))
      \<and> fixedFilesRef (snd (fix_finish s q r)) = fixedFilesRef s
      \<and> files (snd (fix_finish s q r)) = files s
      \<and> timeouts (snd (fix_finish s q r)) = timeouts s)"
proof -
  have a: "(\<exists>e. r = FetchThrows e \<or> r = Response True (JsonThrows e))
       \<or> (\<exists>tf b. p_flow q = Repair tf \<and> r = Response False b) \<longrightarrow>
      (\<exists>m. messages (snd (fix_finish s q r)) = messages s @ [(Error, m)])
      \<and> fst (fix_finish s q r) = False"
    by (cases "p_flow q")
      (auto simp: fix_finish_def missingModuleFlow_def repairFlow_def caught_def addMessage_def)
  have b: "r = Response True (Json None) \<longrightarrow>
        fst (fix_finish s q r) = False \<and> messages (snd (fix_finish s q r)) = messages s"
    by (cases "p_flow q")
      (auto simp: fix_finish_def missingModuleFlow_def repairFlow_def caught_def addMessage_def)
  have c: "fst (fix_finish s q r) = False \<longrightarrow>
        \<not> fixingRef (snd (fix_finish s q r))
      \<and> \<not> isFixing (snd (fix_finish s q r))
      \<and> fixedFilesRef (snd (fix_finish s q r)) = fixedFilesRef s
      \<and> files (snd (fix_finish s q r)) = files s
      \<and> timeouts (snd (fix_finish s q r)) = timeouts s"
    using fix_finish_failure [of s q r "snd (fix_finish s q r)"]
    by (metis prod.collapse)
  from a b c show ?thesis by blast
qed

theorem failed_fix_leaves_key_unfixed_witness:
  "(\<exists>m. messages (snd (fix_finish busy appRepair (FetchThrows ''TypeError: Failed to fetch'')))
        = messages busy @ [(Error, m)])
   \<and> fst (fix_finish busy appRepair (Response True (Json None))) = False
   \<and> \<not> fixingRef (snd (fix_finish busy appRepair (Response True (Json None))))
   \<and> fixedFilesRef (snd (fix_finish busy appRepair (Response True (Json None)))) = fixedFilesRef busy
   \<and> \<not> fixingRef (snd (fix_finish busy widgetCreate (Response False (Json None))))"
proof -
  have w: "fst (fix_finish busy widgetCreate (Response False (Json None))) = False"
    by (simp add: fix_finish_def widgetCreate_def missingModuleFlow_def Let_def)
  show ?thesis
    using w
      failed_fix_leaves_key_unfixed [of "FetchThrows ''TypeError: Failed to fetch''" appRepair busy]
      failed_fix_leaves_key_unfixed [of "Response True (Json None)" appRepair busy]
      failed_fix_leaves_key_unfixed [of "Response False (Json None)" widgetCreate busy]
    by simp
qed

text \<open>The claim as the specification states it fails: a response without \<open>fixedCode\<close>
  is not surfaced. Here the chat holds no message before the answer and none after
  it.\<close>

theorem missing_fixedCode_is_silent:
  "messages busy = []
   \<and> messages (snd (fix_finish busy appRepair (Response True (Json None)))) = []"
  by (simp add: fix_finish_def appRepair_def repairFlow_def busy_def idle_def)

text \<open>
  Claim C10. A successful repair maps over the files: the list keeps its length, every
  entry keeps its path, an entry whose path is not the target's is unchanged, and an entry
  with the target's path gets the code of the service. A successful missing-module fix
  appends one entry and leaves the others as they are. A fix that fails, and the part of
  \<open>fixCodeError\<close> before the request, leave the files untouched.
\<close>

theorem fix_changes_only_target_file:
  "(\<forall>tf s'. fix_finish s q r = (True, s') \<and> p_flow q = Repair tf \<longrightarrow>
        length (files s') = length (files s)
      \<and> (\<forall>i < length (files s).
            path (files s' ! i) = path (files s ! i)
          \<and> (path (files s ! i) \<noteq> path tf \<longrightarrow> files s' ! i = files s ! i)
          \<and> (path (files s ! i) = path tf \<longrightarrow> r = Response True (Json (Some (content (files s' ! i)))))))
   \<and> (\<forall>cn np s'. fix_finish s q r = (True, s') \<and> p_flow q = MissingModule cn np \<longrightarrow>
        (\<exists>fc. r = Response True (Json (Some fc))
             \<and> files s' = files s @ [\<lparr>path = ''/'' @ np, content = fc\<rparr>]))
   \<and> (\<forall>s'. fix_finish s q r = (False, s') \<longrightarrow> files s' = files s)
   \<and> files (snd (fix_start out s f t)) = files s"
proof -
  have a: "\<forall>tf s'. fix_finish s q r = (True, s') \<and> p_flow q = Repair tf \<longrightarrow>
        length (files s') = length (files s)
      \<and> (\<forall>i < length (files s).
            path (files s' ! i) = path (files s ! i)
          \<and> (path (files s ! i) \<noteq> path tf \<longrightarrow> files s' ! i = files s ! i)
          \<and> (path (files s ! i) = path tf \<longrightarrow> r = Response True (Json (Some (content (files s' ! i))))))"
  proof (intro allI impI)
    fix tf s'
    assume h: "fix_finish s q r = (True, s') \<and> p_flow q = Repair tf"
    then obtain fc where r: "r = Response True (Json (Some fc))"
      and fs: "files s' = map (\<lambda>f. if path f = path tf then f\<lparr>content := fc\<rparr> else f) (files s)"
      using fix_finish_repair_success [of s q r s' tf] by blast
    show "length (files s') = length (files s)
      \<and> (\<forall>i < length (files s).
            path (files s' ! i) = path (files s ! i)
          \<and> (path (files s ! i) \<noteq> path tf \<longrightarrow> files s' ! i = files s ! i)
          \<and> (path (files s ! i) = path tf \<longrightarrow> r = Response True (Json (Some (content (files s' ! i))))))"
      by (simp add: fs r)
  qed
  have b: "\<forall>cn np s'. fix_finish s q r = (True, s') \<and> p_flow q = MissingModule cn np \<longrightarrow>
        (\<exists>fc. r = Response True (Json (Some fc))
             \<and> files s' = files s @ [\<lparr>path = ''/'' @ np, content = fc\<rparr>])"
    using fix_finish_missing_success [of s q r] by blast
  have c: "\<forall>s'. fix_finish s q r = (False, s') \<longrightarrow> files s' = files s"
    using fix_finish_failure [of s q r] by blast
  have d: "files (snd (fix_start out s f t)) = files s"
    using fix_start_cases [of out s f t] by auto
  from a b c d show ?thesis by blast
qed

theorem fix_changes_only_target_file_witness:
  "fst (fix_finish busy appRepair (Response True (Json (Some ''fixed'')))) = True
   \<and> files (snd (fix_finish busy appRepair (Response True (Json (Some ''fixed'')))))
       = [\<lparr>path = ''/src/App.tsx'', content = ''fixed''\<rparr>,
          \<lparr>path = ''/src/pages/Bar.tsx'', content = ''export const Bar = 2''\<rparr>]
   \<and> files (snd (fix_finish busy widgetCreate (Response True (Json (Some ''widget'')))))
       = files busy @ [\<lparr>path = ''/src/Widget.tsx'', content = ''widget''\<rparr>]
   \<and> files (snd (fix_finish busy appRepair (Response False (Json None)))) = files busy"
proof -
  let ?r = "Response True (Json (Some ''fixed''))"
  let ?w = "Response True (Json (Some ''widget''))"
  let ?n = "Response False (Json None)"
  have f1: "fst (fix_finish busy appRepair ?r) = True"
    by (simp add: fix_finish_def appRepair_def repairFlow_def Let_def)
  then obtain s1 where s1: "fix_finish busy appRepair ?r = (True, s1)"
    by (cases "fix_finish busy appRepair ?r") auto
  have f2: "fst (fix_finish busy widgetCreate ?w) = True"
    by (simp add: fix_finish_def widgetCreate_def missingModuleFlow_def Let_def)
  then obtain s2 where s2: "fix_finish busy widgetCreate ?w = (True, s2)"
    by (cases "fix_finish busy widgetCreate ?w") auto
  have f3: "fst (fix_finish busy appRepair ?n) = False"
    by (simp add: fix_finish_def appRepair_def repairFlow_def Let_def caught_def)
  then obtain s3 where s3: "fix_finish busy appRepair ?n = (False, s3)"
    by (cases "fix_finish busy appRepair ?n") auto
  have fl: "p_flow appRepair = Repair \<lparr>path = ''/src/App.tsx'', content = ''export default 1''\<rparr>"
    by (simp add: appRepair_def)
  have wl: "p_flow widgetCreate = MissingModule ''Widget'' ''src/Widget.tsx''"
    by (simp add: widgetCreate_def)
  have fb: "files busy = [\<lparr>path = ''/src/App.tsx'', content = ''export default 1''\<rparr>,
          \<lparr>path = ''/src/pages/Bar.tsx'', content = ''export const Bar = 2''\<rparr>]"
    by (simp add: busy_def idle_def sampleFiles_def)
  have r1: "length (files s1) = 2
      \<and> files s1 ! 1 = \<lparr>path = ''/src/pages/Bar.tsx'', content = ''export const Bar = 2''\<rparr>
      \<and> path (files s1 ! 0) = ''/src/App.tsx'' \<and> content (files s1 ! 0) = ''fixed''"
    using s1 fl fb fix_changes_only_target_file [of busy appRepair ?r appOutput "''src/App.tsx''" "''boom''"]
    by (simp add: All_less_Suc2 numeral_2_eq_2)
  then have e1: "files s1 = [\<lparr>path = ''/src/App.tsx'', content = ''fixed''\<rparr>,
          \<lparr>path = ''/src/pages/Bar.tsx'', content = ''export const Bar = 2''\<rparr>]"
    by (cases "files s1"; cases "tl (files s1)") (auto simp: numeral_2_eq_2)
  have e2: "files s2 = files busy @ [\<lparr>path = ''/src/Widget.tsx'', content = ''widget''\<rparr>]"
    using s2 wl fix_changes_only_target_file [of busy widgetCreate ?w appOutput "''src/App.tsx''" "''boom''"]
    by simp
  have e3: "files s3 = files busy"
    using s3 fix_changes_only_target_file [of busy appRepair ?n appOutput "''src/App.tsx''" "''boom''"]
    by simp
  show ?thesis
    using f1 e1 e2 e3 by (simp add: s1 s2 s3)
qed

section \<open>Properties of the Orchestration Loop\<close>




lemma fix_start_no_budget:
  "fst (fix_start out (s\<lparr>fixAttempts := n\<rparr>) f t) = fst (fix_start out s f t)"
  by (simp add: fix_start_def Let_def addMessage_def fetch_def split: option.splits)




text \<open>
  Claim C4 on the sample session: the attempt counter stands at the maximum after the
  50th attempt, and the re-check scheduled by that very fix dispatches once more. The
  counter goes to 51 and a further request is sent, for \<open>src/App.tsx\<close>. The two
  triggers test the counter; \<open>fixCodeError\<close> and the re-checks it schedules do not.
\<close>

theorem recheck_dispatches_beyond_budget:
  "fixAttempts budgetReached = MAX_FIX_ATTEMPTS
   \<and> map requestPath (fetched budgetReached) = [''/src/pages/Bar.tsx'']
   \<and> fixAttempts budgetExceeded = 51
   \<and> map requestPath (fetched budgetExceeded) = [''/src/pages/Bar.tsx'', ''/src/App.tsx'']"
proof -
  have "observe [] budgetReached = (50, [''/src/pages/Bar.tsx''], None)"
    by code_simp
  moreover have "observe [] budgetExceeded
      = (51, [''/src/pages/Bar.tsx'', ''/src/App.tsx''], None)"
    by code_simp
  ultimately show ?thesis
    by (simp add: observe_def MAX_FIX_ATTEMPTS_def)
qed

section \<open>Properties of the Stack Trace Resolver\<close>

text \<open>
  Claim C6 at the example of the code's own comment on Pattern 1, a URL of the sandbox
  with a \<open>/src/\<close> path and a line, outside of a stack frame: the path is found, by
  Pattern 5, and the line number is lost. Pattern 1 asks for a backslash and letters
  \<open>d\<close> after the colon, so it does not match a line number. The stack of the
  specification's scenario is resolved with its line, by Pattern 3.
\<close>

theorem direct_url_line_number_lost:
  "parseStackTrace [] ''https://abc.io/src/components/features/StatCard.tsx:20:3''
     = \<lparr>filePath = Some ''src/components/features/StatCard.tsx'', lineNumber = Null\<rparr>
   \<and> parseStackTrace ''at Bar (https://x.io/src/pages/Bar.tsx:10:5)'' []
     = \<lparr>filePath = Some ''src/pages/Bar.tsx'', lineNumber = Line 10\<rparr>"
  by code_simp

section \<open>Properties of the Output Normalizer\<close>

lemma replace_all_no_match: "search_from r acc s = None \<Longrightarrow> replace_all r s = s"
proof (induction s arbitrary: acc)
  case Nil
  show ?case by simp
next
  case (Cons c cs)
  from Cons.prems have m: "ms r (c # cs) = []" and n: "search_from r (c # acc) cs = None"
    by (auto simp: search_from.simps [of r acc "c # cs"] split: list.splits)
  from Cons.IH [OF n] m show ?case by simp
qed

text \<open>
  Claim C7, as the code has it. The Normalizer is a function of its input alone, and it
  returns unchanged every text in which neither of its two patterns occurs: on clean text
  it is a no-op.
\<close>

theorem normalize_clean_text:
  assumes "\<not> test ansiRe s" and "\<not> test bracketRe s"
  shows "normalize s = s"
proof -
  have a: "search_from ansiRe [] s = None"
    using assms(1) by (cases "search_from ansiRe [] s") (auto simp: test_def match_def)
  have b: "search_from bracketRe [] s = None"
    using assms(2) by (cases "search_from bracketRe [] s") (auto simp: test_def match_def)
  show ?thesis
    by (simp add: normalize_def replace_all_no_match [OF a] replace_all_no_match [OF b])
qed

theorem normalize_clean_text_witness:
  "\<not> test ansiRe ''[plugin:vite:react-babel] done [ok]''
   \<and> \<not> test bracketRe ''[plugin:vite:react-babel] done [ok]''
   \<and> normalize ''[plugin:vite:react-babel] done [ok]'' = ''[plugin:vite:react-babel] done [ok]''"
proof -
  have a: "\<not> test ansiRe ''[plugin:vite:react-babel] done [ok]''"
    by code_simp
  have b: "\<not> test bracketRe ''[plugin:vite:react-babel] done [ok]''"
    by code_simp
  from a b normalize_clean_text [OF a b] show ?thesis by simp
qed

text \<open>The claim as the specification states it fails: taking a sequence out can join what
  stood around it into a new one. Here the normalized text is not clean, and normalizing
  it again changes it.\<close>

theorem normalize_not_idempotent:
  "normalize ''[[1m1m'' = ''[1m'' \<and> normalize (normalize ''[[1m1m'') = []"
  by code_simp

section \<open>Properties of the matcher\<close>

lemma ms_rest_suffix: "(c, rest) \<in> set (ms r s) \<Longrightarrow> suffix rest s"
proof (induction r arbitrary: c rest s)
  case (Star P)
  have "t \<in> set (star_rests P s) \<Longrightarrow> suffix t s" for t
    by (induction s) (auto simp: suffix_Cons split: if_splits)
  with Star show ?case by auto
next
  case (Plus P)
  have st: "t \<in> set (star_rests P u) \<Longrightarrow> suffix t u" for t u
    by (induction u) (auto simp: suffix_Cons split: if_splits)
  from Plus show ?case
    by (cases s) (auto simp: suffix_Cons dest: st split: if_splits)
next
  case (Seq r1 r2)
  then obtain c1 s1 c2 where "(c1, s1) \<in> set (ms r1 s)" and "(c2, rest) \<in> set (ms r2 s1)"
    by auto
  with Seq.IH show ?case
    using suffix_order.trans by blast
next
  case (Cls P)
  then show ?case by (auto simp: suffix_Cons split: list.splits if_splits)
qed (auto simp: suffix_drop split: if_splits)

lemma ms_must:
  "must l r \<Longrightarrow> (c, rest) \<in> set (ms r s) \<Longrightarrow> \<exists>m. s = m @ rest \<and> sublist l m"
proof (induction r arbitrary: c rest s)
  case (Lit x)
  then have "prefix x s" and "rest = drop (length x) s" and "l = x"
    by (auto split: if_splits)
  then show ?case
    by (metis append_take_drop_id prefix_def append_eq_conv_conj sublist_order.order_refl)
next
  case (Seq r1 r2)
  from Seq.prems(2) obtain c1 s1 c2
    where a: "(c1, s1) \<in> set (ms r1 s)" and b: "(c2, rest) \<in> set (ms r2 s1)"
    by auto
  from a obtain m1 where m1: "s = m1 @ s1"
    using ms_rest_suffix suffix_def by blast
  from b obtain m2 where m2: "s1 = m2 @ rest"
    using ms_rest_suffix suffix_def by blast
  from Seq.prems(1) have "must l r1 \<or> must l r2" by simp
  then have "sublist l (m1 @ m2)"
  proof
    assume "must l r1"
    from Seq.IH(1) [OF this a] m1 have "sublist l m1" by auto
    then show ?thesis
      by (metis sublist_append)
  next
    assume "must l r2"
    from Seq.IH(2) [OF this b] m2 have "sublist l m2" by auto
    then show ?thesis
      by (metis sublist_append)
  qed
  with m1 m2 show ?case by auto
next
  case (Alt r1 r2)
  then show ?case by auto
next
  case (Cap n r)
  then show ?case by auto
qed auto

lemma str_includes_sublist: "str_includes s x \<longleftrightarrow> sublist x s"
  by (induction s) (auto simp: sublist_Cons_right)

lemma search_from_must:
  "must l r \<Longrightarrow> search_from r acc s = Some x \<Longrightarrow> sublist l s"
proof (induction s arbitrary: acc)
  case Nil
  then obtain c rest where "(c, rest) \<in> set (ms r [])"
    by (auto simp: search_from.simps [of r acc "[]"] split: list.splits)
  with Nil.prems(1) have "\<exists>m. [] = m @ rest \<and> sublist l m"
    by (rule ms_must)
  then show ?case by auto
next
  case (Cons a s)
  show ?case
  proof (cases "ms r (a # s)")
    case Nil
    with Cons.prems(2) have "search_from r (a # acc) s = Some x"
      by (simp add: search_from.simps [of r acc "a # s"])
    with Cons.IH Cons.prems(1) have "sublist l s" by blast
    then show ?thesis
      by (simp add: sublist_Cons_right)
  next
    case (Cons y ys)
    then have "(fst y, snd y) \<in> set (ms r (a # s))" by simp
    with Cons.prems(1) have "\<exists>m. a # s = m @ snd y \<and> sublist l m"
      by (rule ms_must)
    then show ?thesis
      by (metis sublist_append)
  qed
qed

lemma match_must: "must l r \<Longrightarrow> \<not> str_includes s l \<Longrightarrow> match r s = None"
  using search_from_must [of l r "[]" s]
  by (cases "search_from r [] s") (auto simp: match_def str_includes_sublist)

section \<open>Properties of the Error Classifier\<close>




section \<open>The build-plugin rule of the Classifier\<close>





















section \<open>Pattern 1 of the resolver\<close>

text \<open>Pattern 1 matches no text without a backslash, so none that a stack trace of the
  sandbox holds.\<close>

lemma srcPathRe_needs_backslash:
  assumes "backslash \<notin> set s"
  shows "match srcPathRe s = None"
proof -
  have "\<not> sublist [backslash] s"
    using assms by (auto simp: sublist_def)
  moreover have "must [backslash] srcPathRe"
    by (simp add: srcPathRe_def)
  ultimately show ?thesis
    by (simp add: match_must str_includes_sublist)
qed

end
